theory Spec2Isabelle
  imports Main "HOL-Library.Sublist" "HOL-Library.Multiset"
begin

section \<open>Data model of download.py\<close>

text \<open>
  An exception caught by \<^verbatim>\<open>except Exception as e\<close> is kept as the text of
  \<^verbatim>\<open>str(e)\<close>.
\<close>

datatype error = Error string

text \<open>
  What \<^verbatim>\<open>Article.parse_pmid\<close> of the external library \<^verbatim>\<open>pubmed_mapper\<close> hands
  back, as far as \<^verbatim>\<open>fetch_article_data\<close> reads it. An author is the pair of the
  printed forms of the author object and of its affiliation; \<open>art_keywords\<close> is
  \<open>None\<close> when the object has no attribute \<^verbatim>\<open>keywords\<close>; \<open>art_journal\<close> is the
  journal's title and \<open>art_pubdate\<close> the printed date, \<open>None\<close> when the attribute
  is falsy.
\<close>

record raw_article =
  art_authors :: "(string \<times> string) list"
  art_ids :: "(string \<times> string) list"
  art_abstract :: "string option"
  art_title :: "string option"
  art_keywords :: "string list option"
  art_journal :: "string option"
  art_pubdate :: "string option"

text \<open>The dictionary that \<^verbatim>\<open>fetch_article_data\<close> returns, one field per key.\<close>

record article =
  pub_id :: string
  doi :: "string option"
  pmc_id :: "string option"
  abstract :: string
  title :: string
  keyword :: "string list"
  first_author_affiliation :: "string option"
  communicate_author_affiliation :: "string option"
  journal :: "string option"
  pub_date :: "string option"

text \<open>
  The remote service: the result of the call \<^verbatim>\<open>Article.parse_pmid(pmid)\<close> made in
  attempt number \<open>attempt\<close> for \<open>pmid\<close>, either the exception it raises or the
  parsed article. An identifier that occurs twice in the input is answered alike both
  times.
\<close>

type_synonym remote = "string \<Rightarrow> nat \<Rightarrow> error + raw_article"

text \<open>What one call of \<^verbatim>\<open>fetch_article_data\<close> does besides returning.\<close>

datatype fetch_event =
  Attempted nat
| Slept nat
| SleepRaised nat
| PrintedFailed string string

section \<open>Python helpers\<close>

text \<open>Truthiness of a value that is \<^verbatim>\<open>None\<close> or a string.\<close>

fun truthy :: "string option \<Rightarrow> bool" where
  "truthy None = False"
| "truthy (Some s) = (s \<noteq> [])"

text \<open>\<^verbatim>\<open>x or ""\<close> for \<open>x\<close> a string or \<^verbatim>\<open>None\<close>.\<close>

fun or_empty :: "string option \<Rightarrow> string" where
  "or_empty None = []"
| "or_empty (Some s) = s"

text \<open>
  \<^verbatim>\<open>next((o.id_value for o in ids if o.id_type == t), None)\<close>: the value of the
  first entry of type \<open>t\<close>.
\<close>

fun next_id :: "string \<Rightarrow> (string \<times> string) list \<Rightarrow> string option" where
  "next_id t [] = None"
| "next_id t ((id_type, id_value) # ids) =
     (if id_type = t then Some id_value else next_id t ids)"

text \<open>\<^verbatim>\<open>str([author, author.affiliation])\<close>.\<close>

definition author_str :: "string \<times> string \<Rightarrow> string" where
  "author_str a = ''['' @ fst a @ '', '' @ snd a @ '']''"

text \<open>\<^verbatim>\<open>sep.join(xs)\<close>.\<close>

fun join :: "string \<Rightarrow> string list \<Rightarrow> string" where
  "join sep [] = []"
| "join sep [x] = x"
| "join sep (x # y # xs) = x @ sep @ join sep (y # xs)"

text \<open>How an f-string prints a value that is \<^verbatim>\<open>None\<close> or a string.\<close>

fun fmt :: "string option \<Rightarrow> string" where
  "fmt None = ''None''"
| "fmt (Some s) = s"

section \<open>fetch_article_data\<close>

text \<open>The dictionary built in the \<^verbatim>\<open>try\<close> block from a parsed article.\<close>

definition build_article :: "string \<Rightarrow> raw_article \<Rightarrow> article" where
  "build_article pmid art =
     (let authors = map author_str (art_authors art) in
      \<lparr> pub_id = pmid,
        doi = next_id ''doi'' (art_ids art),
        pmc_id = next_id ''pmc'' (art_ids art),
        abstract = or_empty (art_abstract art),
        title = or_empty (art_title art),
        keyword = (case art_keywords art of None \<Rightarrow> [] | Some ks \<Rightarrow> ks),
        first_author_affiliation = (if authors \<noteq> [] then Some (hd authors) else None),
        communicate_author_affiliation = (if authors \<noteq> [] then Some (last authors) else None),
        journal = art_journal art,
        pub_date = art_pubdate art \<rparr>)"

text \<open>
  \<^verbatim>\<open>time.sleep(secs)\<close> with an integer argument: CPython keeps the delay as a
  signed 64-bit number of nanoseconds and raises \<^verbatim>\<open>OverflowError\<close>, with the text
  below, when \<open>secs\<close> is above \<open>SLEEP_MAX\<close>. \<open>3 ^ 20\<close> is below the bound
  and \<open>3 ^ 21\<close> above it.
\<close>

definition SLEEP_MAX :: nat where
  "SLEEP_MAX = (2 ^ 63 - 1) div 10 ^ 9"

definition sleep_overflow :: error where
  "sleep_overflow = Error ''timestamp too large to convert to C _PyTime_t''"

text \<open>
  The loop \<^verbatim>\<open>for attempt in range(retries)\<close>, over the attempts still to make.
  The result is what the call does in the end, \<open>Inr\<close> the value it returns
  (\<open>None\<close> for Python's \<^verbatim>\<open>None\<close>) or \<open>Inl\<close> the exception that leaves it,
  and the events of the call in order. An exception of \<^verbatim>\<open>time.sleep\<close> is raised
  inside the handler, so nothing catches it. \<open>retries - 1\<close> is only evaluated
  inside the loop, where \<open>retries\<close> is positive.
\<close>

fun fetch_attempts ::
  "remote \<Rightarrow> string \<Rightarrow> nat \<Rightarrow> nat list \<Rightarrow> (error + article option) \<times> fetch_event list" where
  "fetch_attempts remote pmid retries [] = (Inr None, [])"
| "fetch_attempts remote pmid retries (attempt # rest) =
     (case remote pmid attempt of
        Inr art \<Rightarrow> (Inr (Some (build_article pmid art)), [Attempted attempt])
      | Inl (Error msg) \<Rightarrow>
          (if attempt < retries - 1
           then (if SLEEP_MAX < 3 ^ attempt
                 then (Inl sleep_overflow, [Attempted attempt, SleepRaised (3 ^ attempt)])
                 else (let (r, evs) = fetch_attempts remote pmid retries rest
                       in (r, Attempted attempt # Slept (3 ^ attempt) # evs)))
           else (Inr None, [Attempted attempt, PrintedFailed pmid msg])))"

definition fetch_article_data_traced ::
  "remote \<Rightarrow> string \<Rightarrow> nat \<Rightarrow> (error + article option) \<times> fetch_event list" where
  "fetch_article_data_traced remote pmid retries =
     fetch_attempts remote pmid retries [0..<retries]"

definition fetch_article_data :: "remote \<Rightarrow> string \<Rightarrow> nat \<Rightarrow> error + article option" where
  "fetch_article_data remote pmid retries = fst (fetch_article_data_traced remote pmid retries)"

text \<open>The events of a call, and what can be read off them.\<close>

definition fetch_events :: "remote \<Rightarrow> string \<Rightarrow> nat \<Rightarrow> fetch_event list" where
  "fetch_events remote pmid retries = snd (fetch_article_data_traced remote pmid retries)"

fun is_attempt :: "fetch_event \<Rightarrow> bool" where
  "is_attempt (Attempted i) = True"
| "is_attempt _ = False"

definition attempts_made :: "fetch_event list \<Rightarrow> nat" where
  "attempts_made evs = length (filter is_attempt evs)"


section \<open>process_batch\<close>

text \<open>
  The loop of \<^verbatim>\<open>process_batch\<close> with its accumulator \<^verbatim>\<open>results\<close>; the call
  uses the default \<^verbatim>\<open>retries=3\<close>. A returned dictionary is never empty, so
  \<^verbatim>\<open>if article_data\<close> is the test against \<^verbatim>\<open>None\<close>. An exception that
  leaves \<^verbatim>\<open>fetch_article_data\<close> leaves \<^verbatim>\<open>process_batch\<close> too.
\<close>

fun process_batch_loop :: "remote \<Rightarrow> string list \<Rightarrow> article list \<Rightarrow> error + article list" where
  "process_batch_loop remote [] results = Inr results"
| "process_batch_loop remote (pmid # batch) results =
     (case fetch_article_data remote pmid 3 of
        Inl e \<Rightarrow> Inl e
      | Inr None \<Rightarrow> process_batch_loop remote batch results
      | Inr (Some article_data) \<Rightarrow>
          (if abstract article_data \<noteq> [] \<and> truthy (doi article_data)
           then process_batch_loop remote batch (results @ [article_data])
           else process_batch_loop remote batch results))"

definition process_batch :: "remote \<Rightarrow> string list \<Rightarrow> error + article list \<times> string list" where
  "process_batch remote batch =
     (case process_batch_loop remote batch [] of
        Inl e \<Rightarrow> Inl e
      | Inr results \<Rightarrow> Inr (results, batch))"

section \<open>Files, output and export faults\<close>

text \<open>
  A file is a sequence of chunks: \<open>Json a\<close> is the line
  \<^verbatim>\<open>json.dumps(a, ensure_ascii=False) + '\n'\<close>, which \<^verbatim>\<open>json.loads\<close> reads
  back as \<open>a\<close>; \<open>Chars s\<close> is text, as UTF-8 bytes, none of whose lines
  \<^verbatim>\<open>json.loads\<close> accepts, written as it is. The empty file has no chunk.
\<close>

datatype chunk = Json article | Chars string

type_synonym content = "chunk list"

datatype message =
  GeneratedOutputs nat
| ErrorGenerating string
| SavedFailed nat

datatype io_event =
  Wrote string content
| Appended string content
| Printed message

record system =
  files :: "string \<rightharpoonup> content"
  events :: "io_event list"

text \<open>
  The export stage runs inside \<^verbatim>\<open>try\<close>: each of its file operations may raise,
  as may the external \<^verbatim>\<open>markdown.markdown\<close>. \<open>OpenFails\<close> is \<^verbatim>\<open>open\<close> raising,
  which leaves the file as it was; \<open>WriteFails\<close> is a later failure of the
  \<^verbatim>\<open>with\<close> body, which leaves the file that mode \<^verbatim>\<open>'w'\<close> has just emptied.
  \<open>open_missing path\<close> is the exception of opening for reading a path that does
  not exist, and \<open>loads_error t\<close> the exception that reading the text \<open>t\<close> as
  lines of JSON raises. The writes of the fetch stage and of \<^verbatim>\<open>failed_ids.txt\<close>
  are outside any \<^verbatim>\<open>try\<close> and are taken to succeed.
\<close>

datatype export_op = Reading string | Writing string

datatype fault = OpenFails error | WriteFails error

record export_env =
  io_fault :: "export_op \<Rightarrow> fault option"
  markdown :: "string \<Rightarrow> error + string"
  open_missing :: "string \<Rightarrow> error"
  loads_error :: "string \<Rightarrow> error"

definition text_content :: "string \<Rightarrow> content" where
  "text_content s = (if s = [] then [] else [Chars s])"

definition write_file :: "string \<Rightarrow> content \<Rightarrow> system \<Rightarrow> system" where
  "write_file path c s =
     s\<lparr>files := (files s)(path \<mapsto> c), events := events s @ [Wrote path c]\<rparr>"

text \<open>Mode \<^verbatim>\<open>"a"\<close> creates a missing file.\<close>

definition append_file :: "string \<Rightarrow> content \<Rightarrow> system \<Rightarrow> system" where
  "append_file path c s =
     s\<lparr>files := (files s)(path \<mapsto> (case files s path of None \<Rightarrow> c | Some old \<Rightarrow> old @ c)),
       events := events s @ [Appended path c]\<rparr>"

definition print :: "message \<Rightarrow> system \<Rightarrow> system" where
  "print m s = s\<lparr>events := events s @ [Printed m]\<rparr>"

text \<open>A step of the export stage: the exception it raised, if any, and the state it left.\<close>

type_synonym step = "system \<Rightarrow> error option \<times> system"

fun run_steps :: "step list \<Rightarrow> step" where
  "run_steps [] s = (None, s)"
| "run_steps (a # as) s =
     (case a s of
        (Some e, s') \<Rightarrow> (Some e, s')
      | (None, s') \<Rightarrow> run_steps as s')"

definition try_write :: "export_env \<Rightarrow> string \<Rightarrow> content \<Rightarrow> step" where
  "try_write env path c s =
     (case io_fault env (Writing path) of
        None \<Rightarrow> (None, write_file path c s)
      | Some (OpenFails e) \<Rightarrow> (Some e, s)
      | Some (WriteFails e) \<Rightarrow> (Some e, write_file path [] s))"

section \<open>Rendering\<close>

definition nl :: string where
  "nl = [CHR 0x0A]"

definition dq :: string where
  "dq = [CHR 0x22]"

definition format_article_markdown :: "article \<Rightarrow> string" where
  "format_article_markdown data = concat
     [ ''#### '' @ title data @ nl,
       ''- **Article ID**: '' @ pub_id data @ nl,
       ''- **DOI**: '' @ fmt (doi data) @ nl,
       ''- **Keywords**: '' @ join '', '' (keyword data) @ nl,
       ''- **First Author Affiliation**: '' @ fmt (first_author_affiliation data) @ nl,
       ''- **Corresponding Author Affiliation**: '' @ fmt (communicate_author_affiliation data) @ nl,
       ''- **Journal**: '' @ fmt (journal data) @ nl,
       ''- **Publication Date**: '' @ fmt (pub_date data) @ nl,
       ''**Abstract**: '' @ abstract data @ nl @ nl ]"

text \<open>\<^verbatim>\<open>"ithub" in abstract or "avaliable" in abstract\<close>.\<close>

definition has_github_link :: "string \<Rightarrow> bool" where
  "has_github_link abstract_text =
     (sublist ''ithub'' abstract_text \<or> sublist ''avaliable'' abstract_text)"

definition md_to_html :: "export_env \<Rightarrow> string \<Rightarrow> error + string" where
  "md_to_html env md_content =
     (case markdown env md_content of
        Inl e \<Rightarrow> Inl e
      | Inr html_content \<Rightarrow> Inr (concat
          [ ''<!DOCTYPE html>'', nl,
            ''<html><head><meta charset='', dq, ''UTF-8'', dq, ''>'', nl,
            ''<style>'', nl,
            ''body { font-family: '', dq, ''Microsoft YaHei'', dq, '', '', dq, ''SimSun'', dq,
            '', sans-serif; margin: 2cm; line-height: 1.6; }'', nl,
            ''h1, h2, h3 { color: #333; }'', nl,
            ''code { background-color: #f5f5f5; padding: 2px 4px; }'', nl,
            ''pre { background-color: #f5f5f5; padding: 10px; }'', nl,
            ''</style>'', nl,
            ''</head><body>'', html_content, ''</body></html>'' ]))"

definition save_json_lines :: "export_env \<Rightarrow> string \<Rightarrow> article list \<Rightarrow> step" where
  "save_json_lines env filepath data_list = try_write env filepath (map Json data_list)"

definition write_text :: "export_env \<Rightarrow> string \<Rightarrow> string \<Rightarrow> step" where
  "write_text env path txt = try_write env path (text_content txt)"

text \<open>
  \<^verbatim>\<open>with open(path, 'w') as f: f.write(md_to_html(md))\<close>: the file is opened, and
  so emptied, before the conversion runs.
\<close>

definition write_html :: "export_env \<Rightarrow> string \<Rightarrow> string \<Rightarrow> step" where
  "write_html env path md s =
     (case io_fault env (Writing path) of
        Some (OpenFails e) \<Rightarrow> (Some e, s)
      | Some (WriteFails e) \<Rightarrow> (Some e, write_file path [] s)
      | None \<Rightarrow>
          (case md_to_html env md of
             Inl e \<Rightarrow> (Some e, write_file path [] s)
           | Inr html \<Rightarrow> (None, write_file path (text_content html) s)))"

section \<open>generate_outputs\<close>

text \<open>
  \<^verbatim>\<open>line.strip()\<close> is falsy for every line of the text: the text holds nothing but
  the characters that \<^verbatim>\<open>str.strip\<close> removes, which are U+0009 to U+000D, U+001C to
  U+0020, U+0085, U+00A0, U+1680, U+2000 to U+200A, U+2028, U+2029, U+202F, U+205F and
  U+3000, here in their UTF-8 encoding.
\<close>

definition ascii_space :: "char list" where
  "ascii_space = [CHR 0x09, CHR 0x0A, CHR 0x0B, CHR 0x0C, CHR 0x0D,
                  CHR 0x1C, CHR 0x1D, CHR 0x1E, CHR 0x1F, CHR 0x20]"

text \<open>The third bytes of the white space from U+2000 to U+202F, after E2 80.\<close>

definition general_space :: "char list" where
  "general_space = [CHR 0x80, CHR 0x81, CHR 0x82, CHR 0x83, CHR 0x84, CHR 0x85, CHR 0x86,
                    CHR 0x87, CHR 0x88, CHR 0x89, CHR 0x8A, CHR 0xA8, CHR 0xA9, CHR 0xAF]"

fun blank :: "string \<Rightarrow> bool" where
  "blank [] = True"
| "blank [c] = (c \<in> set ascii_space)"
| "blank [c, d] =
     (if c \<in> set ascii_space then blank [d]
      else c = CHR 0xC2 \<and> (d = CHR 0x85 \<or> d = CHR 0xA0))"
| "blank (c # d # e # t) =
     (if c \<in> set ascii_space then blank (d # e # t)
      else if c = CHR 0xC2 then (d = CHR 0x85 \<or> d = CHR 0xA0) \<and> blank (e # t)
      else if c = CHR 0xE1 then d = CHR 0x9A \<and> e = CHR 0x80 \<and> blank t
      else if c = CHR 0xE2
        then ((d = CHR 0x80 \<and> e \<in> set general_space) \<or> (d = CHR 0x81 \<and> e = CHR 0x9F))
             \<and> blank t
      else if c = CHR 0xE3 then d = CHR 0x80 \<and> e = CHR 0x80 \<and> blank t
      else False)"

text \<open>
  \<^verbatim>\<open>[json.loads(line) for line in f if line.strip()]\<close>: blank text is skipped,
  any other text that is not a serialised article makes \<^verbatim>\<open>json.loads\<close> raise.
\<close>

fun parse_chunks :: "export_env \<Rightarrow> content \<Rightarrow> error + article list" where
  "parse_chunks env [] = Inr []"
| "parse_chunks env (Json a # cs) =
     (case parse_chunks env cs of Inl e \<Rightarrow> Inl e | Inr articles \<Rightarrow> Inr (a # articles))"
| "parse_chunks env (Chars t # cs) =
     (if blank t then parse_chunks env cs else Inl (loads_error env t))"

definition read_json_lines :: "export_env \<Rightarrow> string \<Rightarrow> system \<Rightarrow> error + article list" where
  "read_json_lines env path s =
     (case io_fault env (Reading path) of
        Some (OpenFails e) \<Rightarrow> Inl e
      | Some (WriteFails e) \<Rightarrow> Inl e
      | None \<Rightarrow>
          (case files s path of
             None \<Rightarrow> Inl (open_missing env path)
           | Some c \<Rightarrow> parse_chunks env c))"

text \<open>The five lists that the loop over the articles fills.\<close>

record outputs =
  pmcids :: "string list"
  no_pmcids :: "article list"
  all_md :: "string list"
  link_articles :: "article list"
  no_link_articles :: "article list"

definition no_outputs :: outputs where
  "no_outputs = \<lparr> pmcids = [], no_pmcids = [], all_md = [], link_articles = [],
                  no_link_articles = [] \<rparr>"

fun separate :: "bool \<Rightarrow> article list \<Rightarrow> outputs \<Rightarrow> outputs" where
  "separate select_link [] out = out"
| "separate select_link (a # articles) out =
     (let out1 = (case pmc_id a of
                    None \<Rightarrow> out\<lparr>no_pmcids := no_pmcids out @ [a]\<rparr>
                  | Some p \<Rightarrow>
                      (if p \<noteq> [] then out\<lparr>pmcids := pmcids out @ [p]\<rparr>
                       else out\<lparr>no_pmcids := no_pmcids out @ [a]\<rparr>));
          out2 = out1\<lparr>all_md := all_md out1 @ [format_article_markdown a]\<rparr>;
          out3 = (if select_link
                  then (if has_github_link (abstract a)
                        then out2\<lparr>link_articles := link_articles out2 @ [a]\<rparr>
                        else out2\<lparr>no_link_articles := no_link_articles out2 @ [a]\<rparr>)
                  else out2)
      in separate select_link articles out3)"

text \<open>
  \<^verbatim>\<open>generate_outputs(prefix, select_link)\<close>; the parameter \<^verbatim>\<open>prefix\<close> is
  written \<open>pfx\<close> throughout. The steps run in the order of the source and stop at
  the first that raises.
\<close>

definition print_step :: "message \<Rightarrow> step" where
  "print_step m s = (None, print m s)"

definition generate_outputs :: "export_env \<Rightarrow> string \<Rightarrow> bool \<Rightarrow> step" where
  "generate_outputs env pfx select_link s =
     (let json_file = pfx @ ''id_information.json'' in
      case read_json_lines env json_file s of
        Inl e \<Rightarrow> (Some e, s)
      | Inr articles \<Rightarrow>
          (let out = separate select_link articles no_outputs;
               md_content = concat (all_md out);
               link_md = concat (map format_article_markdown (link_articles out));
               no_link_md = concat (map format_article_markdown (no_link_articles out))
           in run_steps
                ([ write_text env ''pmcids.txt'' (join nl (pmcids out)),
                   save_json_lines env ''no_pmcids.json'' (no_pmcids out),
                   write_text env (pfx @ ''id_information.md'') md_content,
                   write_html env (pfx @ ''id_information.html'') md_content ]
                 @ (if select_link
                    then [ save_json_lines env (pfx @ ''link_id_information.json'')
                             (link_articles out),
                           write_text env (pfx @ ''link_id_information.md'') link_md,
                           write_html env (pfx @ ''link_id_information.html'') link_md,
                           save_json_lines env (pfx @ ''no_link_id_information.json'')
                             (no_link_articles out),
                           write_text env (pfx @ ''no_link_id_information.md'') no_link_md,
                           write_html env (pfx @ ''no_link_id_information.html'') no_link_md ]
                    else [])
                 @ [ print_step (GeneratedOutputs (length articles)) ])
                s))"

section \<open>process_all_ids\<close>

text \<open>
  The constant of the source. \<^verbatim>\<open>MAX_WORKERS\<close> only bounds how many units run at
  once and does not appear: what the pool decides is the order of completion.
\<close>

definition BATCH_SIZE :: nat where
  "BATCH_SIZE = 1"

text \<open>\<^verbatim>\<open>range(0, n, step)\<close> for a positive step.\<close>

definition range_step :: "nat \<Rightarrow> nat \<Rightarrow> nat list" where
  "range_step n step = map (\<lambda>k. k * step) [0..<(n + step - 1) div step]"

text \<open>\<^verbatim>\<open>[pm_ids[i:i+BATCH_SIZE] for i in range(0, len(pm_ids), BATCH_SIZE)]\<close>.\<close>

definition make_batches :: "string list \<Rightarrow> string list list" where
  "make_batches pm_ids =
     map (\<lambda>i. take BATCH_SIZE (drop i pm_ids)) (range_step (length pm_ids) BATCH_SIZE)"

text \<open>
  The loop over \<^verbatim>\<open>as_completed(futures)\<close>, with the file and \<^verbatim>\<open>failed_ids\<close> as
  its state. \<^verbatim>\<open>future.result()\<close> raises what the unit raised, and nothing in
  \<^verbatim>\<open>process_all_ids\<close> catches it. The progress bar is not modelled.
\<close>

fun collect ::
  "string \<Rightarrow> (error + article list \<times> string list) list \<Rightarrow> system \<times> string list
     \<Rightarrow> error option \<times> system \<times> string list" where
  "collect json_file [] (s, failed_ids) = (None, s, failed_ids)"
| "collect json_file (Inl e # done) (s, failed_ids) = (Some e, s, failed_ids)"
| "collect json_file (Inr (results, current_batch) # done) (s, failed_ids) =
     (if results \<noteq> []
      then collect json_file done (append_file json_file (map Json results) s, failed_ids)
      else collect json_file done (s, failed_ids @ current_batch))"

text \<open>
  Which future completes when is up to the thread pool: \<open>order\<close> lists the indices
  of the futures in the order in which \<^verbatim>\<open>as_completed\<close> yields them, and is a
  rearrangement of all indices.
\<close>

definition valid_order :: "nat list \<Rightarrow> string list \<Rightarrow> bool" where
  "valid_order order pm_ids = (sort order = [0..<length (make_batches pm_ids)])"

text \<open>
  The first stage of \<^verbatim>\<open>process_all_ids\<close>, up to the end of the thread pool's
  block: the exception that ended it, if any, the state it left and \<^verbatim>\<open>failed_ids\<close>.
\<close>

definition fetch_stage ::
  "remote \<Rightarrow> nat list \<Rightarrow> string list \<Rightarrow> string \<Rightarrow> system
     \<Rightarrow> error option \<times> system \<times> string list" where
  "fetch_stage remote order pm_ids pfx s =
     (let batches = make_batches pm_ids;
          json_file = pfx @ ''id_information.json'';
          s1 = write_file json_file (text_content []) s;
          futures = map (process_batch remote) batches
      in collect json_file (map (\<lambda>i. futures ! i) order) (s1, []))"

text \<open>
  The run: the exception that leaves \<^verbatim>\<open>process_all_ids\<close>, if any, and the state
  at its end. An exception of the export stage is caught and printed.
\<close>

definition process_all_ids ::
  "remote \<Rightarrow> export_env \<Rightarrow> nat list \<Rightarrow> string list \<Rightarrow> string \<Rightarrow> bool \<Rightarrow> system
     \<Rightarrow> error option \<times> system" where
  "process_all_ids remote env order pm_ids pfx select_link s =
     (case fetch_stage remote order pm_ids pfx s of
        (Some e, s1, failed_ids) \<Rightarrow> (Some e, s1)
      | (None, s1, failed_ids) \<Rightarrow>
          (case generate_outputs env pfx select_link s1 of
             (Some (Error msg), s2) \<Rightarrow> (None, print (ErrorGenerating msg) s2)
           | (None, s2) \<Rightarrow>
               (if failed_ids \<noteq> []
                then (None, print (SavedFailed (length failed_ids))
                        (write_file ''failed_ids.txt'' (text_content (join nl failed_ids)) s2))
                else (None, s2))))"

text \<open>
  What the run leaves: the records of the dataset file and the failed identifiers.
  \<open>fetched\<close> is the state at the end of the fetch stage.
\<close>

fun records :: "content \<Rightarrow> article list" where
  "records [] = []"
| "records (Json a # cs) = a # records cs"
| "records (Chars t # cs) = records cs"

definition dataset_file :: "string \<Rightarrow> system \<Rightarrow> article list" where
  "dataset_file pfx s =
     (case files s (pfx @ ''id_information.json'') of None \<Rightarrow> [] | Some c \<Rightarrow> records c)"

definition fetched :: "remote \<Rightarrow> nat list \<Rightarrow> string list \<Rightarrow> string \<Rightarrow> system \<Rightarrow> system" where
  "fetched remote order pm_ids pfx s = fst (snd (fetch_stage remote order pm_ids pfx s))"

definition Dataset :: "remote \<Rightarrow> nat list \<Rightarrow> string list \<Rightarrow> string \<Rightarrow> system \<Rightarrow> article list" where
  "Dataset remote order pm_ids pfx s = dataset_file pfx (fetched remote order pm_ids pfx s)"

definition FailedSet :: "remote \<Rightarrow> nat list \<Rightarrow> string list \<Rightarrow> string \<Rightarrow> system \<Rightarrow> string list" where
  "FailedSet remote order pm_ids pfx s = snd (snd (fetch_stage remote order pm_ids pfx s))"

section \<open>The retry schedule, as the specification words it\<close>







section \<open>Scenarios\<close>

definition usable_art :: raw_article where
  "usable_art =
     \<lparr> art_authors = [(''Ada'', ''Lab One''), (''Bo'', ''Lab Two'')],
       art_ids = [(''pubmed'', ''1''), (''doi'', ''10.1/x''), (''pmc'', ''PMC1'')],
       art_abstract = Some ''code on github'',
       art_title = Some ''T'',
       art_keywords = Some [''k1'', ''k2''],
       art_journal = Some ''J'',
       art_pubdate = Some ''2020'' \<rparr>"

definition unusable_art :: raw_article where
  "unusable_art = usable_art\<lparr>art_abstract := None\<rparr>"

text \<open>A service that fails attempts 0 and 1 and answers attempt 2.\<close>

definition flaky_remote :: remote where
  "flaky_remote pmid attempt =
     (if attempt < 2 then Inl (Error ''timeout'') else Inr usable_art)"

text \<open>A service that fails every attempt.\<close>

definition always_fails :: "string \<Rightarrow> remote" where
  "always_fails msg pmid attempt = Inl (Error msg)"

text \<open>
  The end-to-end scenario: A1 is fetched and usable, A2 is fetched with an empty
  abstract, every attempt for any other identifier fails.
\<close>

definition scenario_remote :: remote where
  "scenario_remote pmid attempt =
     (if pmid = ''A1'' then Inr usable_art
      else if pmid = ''A2'' then Inr unusable_art
      else Inl (Error ''timeout''))"

definition no_faults :: export_env where
  "no_faults =
     \<lparr> io_fault = (\<lambda>op. None), markdown = (\<lambda>md. Inr md),
       open_missing = (\<lambda>path. Error ''No such file or directory''),
       loads_error = (\<lambda>t. Error ''Expecting value'') \<rparr>"

definition empty_system :: system where
  "empty_system = \<lparr> files = Map.empty, events = [] \<rparr>"

section \<open>Units and scenario inputs\<close>

text \<open>The usability filter in the specification's words: the abstract and the DOI are both
  non-empty.\<close>

definition usable :: "article \<Rightarrow> bool" where
  "usable a = (abstract a \<noteq> [] \<and> doi a \<noteq> None \<and> doi a \<noteq> Some [])"

text \<open>What one identifier adds to \<^verbatim>\<open>results\<close>: the fetched article when it is usable.\<close>

definition kept :: "remote \<Rightarrow> string \<Rightarrow> article list" where
  "kept remote pmid =
     (case fetch_article_data remote pmid 3 of
        Inr (Some a) \<Rightarrow> if usable a then [a] else []
      | _ \<Rightarrow> [])"

text \<open>What a unit of one identifier adds to \<^verbatim>\<open>failed_ids\<close>.\<close>

definition unit_failed :: "remote \<Rightarrow> string \<Rightarrow> string list" where
  "unit_failed remote pmid = (if kept remote pmid = [] then [pmid] else [])"

text \<open>The results of the futures in the order of their completion.\<close>

definition completed ::
  "remote \<Rightarrow> nat list \<Rightarrow> string list \<Rightarrow> (error + article list \<times> string list) list" where
  "completed remote order pm_ids =
     map (\<lambda>i. map (process_batch remote) (make_batches pm_ids) ! i) order"

text \<open>The two files that hold what the fetch stage found.\<close>

definition fetch_artifact :: "string \<Rightarrow> string \<Rightarrow> bool" where
  "fetch_artifact pfx p = (p = pfx @ ''id_information.json'' \<or> p = ''failed_ids.txt'')"

text \<open>An environment in which \<^verbatim>\<open>id_information.html\<close> cannot be opened for writing.\<close>

definition html_locked :: export_env where
  "html_locked =
     \<lparr> io_fault = (\<lambda>op. if op = Writing ''id_information.html''
                          then Some (OpenFails (Error ''Permission denied'')) else None),
       markdown = (\<lambda>md. Inr md),
       open_missing = (\<lambda>path. Error ''No such file or directory''),
       loads_error = (\<lambda>t. Error ''Expecting value'') \<rparr>"

text \<open>The inputs of the scenarios: identifiers and completion orders.\<close>

definition three_ids :: "string list" where
  "three_ids = [''A1'', ''A2'', ''A3'']"

definition submission_order :: "nat list" where
  "submission_order = [0, 1, 2]"

definition other_order :: "nat list" where
  "other_order = [0, 2, 1]"

definition one_id :: "string list" where
  "one_id = [''A3'']"

definition first_only :: "nat list" where
  "first_only = [0]"

section \<open>The fetcher: attempts, outcome and backoff\<close>

lemma upt3: "[0..<3] = [0, 1, 2]"
  by (simp add: upt_rec)

lemma SLEEP_MAX_val: "SLEEP_MAX = 9223372036"
  by (simp add: SLEEP_MAX_def)

lemma sleep_ok: "i \<le> 20 \<Longrightarrow> \<not> SLEEP_MAX < 3 ^ i"
proof -
  assume "i \<le> 20"
  then have "(3::nat) ^ i \<le> 3 ^ 20" by (intro power_increasing) simp_all
  also have "(3::nat) ^ 20 \<le> SLEEP_MAX" by (simp add: SLEEP_MAX_val)
  finally show ?thesis by simp
qed


lemma fetch_attempts_returns:
  "R \<le> 22 \<Longrightarrow> \<exists>r. fst (fetch_attempts remote pmid R xs) = Inr r"
proof (induction xs)
  case Nil
  show ?case by simp
next
  case (Cons a xs)
  show ?case
  proof (cases "remote pmid a")
    case (Inr art)
    then show ?thesis by simp
  next
    case (Inl e)
    obtain msg where msg: "e = Error msg" by (cases e)
    show ?thesis
    proof (cases "a < R - 1")
      case True
      then have "a \<le> 20" using Cons.prems by simp
      then have "\<not> SLEEP_MAX < 3 ^ a" by (rule sleep_ok)
      then show ?thesis using Inl msg True Cons by (simp add: case_prod_beta)
    next
      case False
      then show ?thesis using Inl msg by simp
    qed
  qed
qed

lemma fetch_returns: "R \<le> 22 \<Longrightarrow> \<exists>r. fetch_article_data remote pmid R = Inr r"
  using fetch_attempts_returns[of R remote pmid "[0..<R]"]
  by (simp add: fetch_article_data_def fetch_article_data_traced_def)

lemma fetch_attempts_all_fail:
  "\<forall>i. j \<le> i \<and> i < R \<longrightarrow> isl (remote pmid i) \<Longrightarrow> R \<le> 22 \<Longrightarrow> n = R - j \<Longrightarrow>
   fst (fetch_attempts remote pmid R [j..<R]) = Inr None \<and>
   attempts_made (snd (fetch_attempts remote pmid R [j..<R])) = R - j"
proof (induction n arbitrary: j)
  case 0
  then show ?case by (simp add: attempts_made_def)
next
  case (Suc n)
  then have jR: "j < R" by simp
  then obtain e where e: "remote pmid j = Inl e"
    using Suc.prems(1) by (cases "remote pmid j") auto
  obtain msg where msg: "e = Error msg" by (cases e)
  have IH: "fst (fetch_attempts remote pmid R [Suc j..<R]) = Inr None \<and>
     attempts_made (snd (fetch_attempts remote pmid R [Suc j..<R])) = R - Suc j"
    using Suc.IH[of "Suc j"] Suc.prems by simp
  have ok: "j < R - 1 \<Longrightarrow> \<not> SLEEP_MAX < 3 ^ j"
    using Suc.prems(2) by (intro sleep_ok) simp
  have l: "[j..<R] = j # [Suc j..<R]" using jR by (simp add: upt_conv_Cons)
  show ?case unfolding l using jR e msg IH ok
    by (auto simp: attempts_made_def case_prod_beta)
qed

lemma fetch_all_fail:
  assumes "\<forall>i<R. isl (remote pmid i)" "R \<le> 22"
  shows "fetch_article_data remote pmid R = Inr None"
    and "attempts_made (fetch_events remote pmid R) = R"
  using fetch_attempts_all_fail[of 0 R remote pmid R] assms
  by (simp_all add: fetch_article_data_def fetch_events_def fetch_article_data_traced_def)

lemma fetch_third_succeeds:
  assumes "remote pmid 0 = Inl e0" "remote pmid 1 = Inl e1" "remote pmid 2 = Inr art"
  shows "fetch_article_data remote pmid 3 = Inr (Some (build_article pmid art))"
    and "attempts_made (fetch_events remote pmid 3) = 3"
  using assms
  by (cases e0; cases e1;
      simp add: fetch_article_data_def fetch_events_def fetch_article_data_traced_def
        upt3 attempts_made_def SLEEP_MAX_val)+














text \<open>
  C3: with a budget of three attempts, a call whose attempts 0 and 1 fail and whose
  attempt 2 succeeds makes exactly three attempts and returns the article; a call all of
  whose attempts fail makes exactly three attempts and returns the failure value. The
  same holds of every budget \<open>R\<close> up to 22: \<open>R\<close> failures, \<open>R\<close> attempts and
  the failure value.
\<close>

theorem fetch_attempt_counts:
  "(remote pmid 0 = Inl e0 \<and> remote pmid 1 = Inl e1 \<and> remote pmid 2 = Inr art \<longrightarrow>
      fetch_article_data remote pmid 3 = Inr (Some (build_article pmid art)) \<and>
      attempts_made (fetch_events remote pmid 3) = 3) \<and>
   ((\<forall>i<3. isl (remote pmid i)) \<longrightarrow>
      fetch_article_data remote pmid 3 = Inr None \<and>
      attempts_made (fetch_events remote pmid 3) = 3) \<and>
   ((\<forall>i<R. isl (remote pmid i)) \<and> R \<le> 22 \<longrightarrow>
      fetch_article_data remote pmid R = Inr None \<and>
      attempts_made (fetch_events remote pmid R) = R)"
  using fetch_third_succeeds[of remote pmid e0 e1 art] fetch_all_fail[of R remote pmid]
    fetch_all_fail[of 3 remote pmid]
  by simp

theorem fetch_attempt_counts_witness:
  "fetch_article_data flaky_remote ''A1'' 3 = Inr (Some (build_article ''A1'' usable_art)) \<and>
   attempts_made (fetch_events flaky_remote ''A1'' 3) = 3 \<and>
   fetch_article_data (always_fails ''timeout'') ''A3'' 3 = Inr None \<and>
   attempts_made (fetch_events (always_fails ''timeout'') ''A3'' 3) = 3"
  using fetch_attempt_counts[of flaky_remote "''A1''" "Error ''timeout''" "Error ''timeout''"
          usable_art 0]
        fetch_attempt_counts[of "always_fails ''timeout''" "''A3''" "Error ''timeout''"
          "Error ''timeout''" usable_art 3]
  by (simp add: flaky_remote_def always_fails_def)








section \<open>Units, completion order and the two results of the fetch stage\<close>

lemma truthy_iff: "truthy d \<longleftrightarrow> d \<noteq> None \<and> d \<noteq> Some []"
  by (cases d) simp_all

lemma fetch_default_returns: "\<exists>r. fetch_article_data remote pmid 3 = Inr r"
  by (rule fetch_returns) simp

lemma process_batch_loop_kept:
  "process_batch_loop remote batch acc = Inr (acc @ concat (map (kept remote) batch))"
proof (induction batch arbitrary: acc)
  case Nil
  show ?case by simp
next
  case (Cons pmid batch)
  obtain r where r: "fetch_article_data remote pmid 3 = Inr r"
    using fetch_default_returns by blast
  show ?case using r Cons
    by (cases r) (simp_all add: kept_def usable_def truthy_iff)
qed

lemma process_batch_kept:
  "process_batch remote batch = Inr (concat (map (kept remote) batch), batch)"
  by (simp add: process_batch_def process_batch_loop_kept)

lemma make_batches_singletons: "make_batches pm_ids = map (\<lambda>x. [x]) pm_ids"
proof (rule nth_equalityI)
  show "length (make_batches pm_ids) = length (map (\<lambda>x. [x]) pm_ids)"
    by (simp add: make_batches_def range_step_def BATCH_SIZE_def)
next
  fix i assume "i < length (make_batches pm_ids)"
  then have i: "i < length pm_ids"
    by (simp add: make_batches_def range_step_def BATCH_SIZE_def)
  then have "take 1 (drop i pm_ids) = [pm_ids ! i]"
    by (simp add: take_Suc_conv_app_nth hd_drop_conv_nth take_Suc)
  then show "make_batches pm_ids ! i = map (\<lambda>x. [x]) pm_ids ! i"
    using i by (simp add: make_batches_def range_step_def BATCH_SIZE_def)
qed

lemma collect_returns: "fst (collect jf (map Inr done) (s, failed)) = None"
  by (induction "done" arbitrary: s failed) (auto)

lemma collect_failed:
  "snd (snd (collect jf (map Inr done) (s, failed))) =
   failed @ concat (map snd (filter (\<lambda>d. fst d = []) done))"
  by (induction "done" arbitrary: s failed) (auto)

lemma collect_file:
  "files s jf = Some old \<Longrightarrow>
   files (fst (snd (collect jf (map Inr done) (s, failed)))) jf =
   Some (old @ map Json (concat (map fst done)))"
  by (induction "done" arbitrary: s failed old) (auto simp: append_file_def)

lemma collect_other:
  "p \<noteq> jf \<Longrightarrow> files (fst (snd (collect jf done (s, failed)))) p = files s p"
  by (induction jf "done" "(s, failed)" arbitrary: s failed rule: collect.induct)
     (auto simp: append_file_def)

lemma records_Json: "records (map Json xs) = xs"
  by (induction xs) simp_all

lemma valid_order_set: "valid_order order pm_ids \<Longrightarrow> mset order = mset [0..<length pm_ids]"
proof -
  assume "valid_order order pm_ids"
  then have "sort order = [0..<length pm_ids]"
    by (simp add: valid_order_def make_batches_singletons)
  then have "mset (sort order) = mset [0..<length pm_ids]" by simp
  then show ?thesis by simp
qed

lemma completed_unit:
  assumes "valid_order order pm_ids"
  shows "completed remote order pm_ids =
         map Inr (map (\<lambda>i. (kept remote (pm_ids ! i), [pm_ids ! i])) order)"
proof -
  have "set order = {0..<length pm_ids}"
    using valid_order_set[OF assms] by (metis mset_eq_setD set_upt)
  then have "\<forall>i\<in>set order. i < length pm_ids" by simp
  then show ?thesis
    by (simp add: completed_def make_batches_singletons process_batch_kept)
qed

lemma mset_concat_map_order:
  assumes "mset order = mset [0..<length pm_ids]"
  shows "mset (concat (map (\<lambda>i. f (pm_ids ! i)) order)) = mset (concat (map f pm_ids))"
proof -
  have "mset (map (\<lambda>i. f (pm_ids ! i)) order) = mset (map (\<lambda>i. f (pm_ids ! i)) [0..<length pm_ids])"
    using assms by (metis mset_map)
  also have "map (\<lambda>i. f (pm_ids ! i)) [0..<length pm_ids] = map f pm_ids"
    by (simp add: map_nth map_equality_iff)
  finally have "mset (map (\<lambda>i. f (pm_ids ! i)) order) = mset (map f pm_ids)" .
  then have "sum_mset (image_mset mset (mset (map (\<lambda>i. f (pm_ids ! i)) order))) =
             sum_mset (image_mset mset (mset (map f pm_ids)))" by simp
  then show ?thesis by (simp add: mset_concat sum_mset_sum_list flip: mset_map)
qed

lemma fetch_stage_result:
  "fetch_stage remote order pm_ids pfx s =
   collect (pfx @ ''id_information.json'') (completed remote order pm_ids)
     (write_file (pfx @ ''id_information.json'') [] s, [])"
  by (simp add: fetch_stage_def completed_def text_content_def Let_def)

lemma fetch_stage_returns:
  assumes "valid_order order pm_ids"
  shows "fst (fetch_stage remote order pm_ids pfx s) = None"
  unfolding fetch_stage_result completed_unit[OF assms] by (rule collect_returns)

lemma Dataset_unit:
  assumes "valid_order order pm_ids"
  shows "Dataset remote order pm_ids pfx s = concat (map (\<lambda>i. kept remote (pm_ids ! i)) order)"
proof -
  have f: "files (write_file (pfx @ ''id_information.json'') [] s) (pfx @ ''id_information.json'') =
           Some []"
    by (simp add: write_file_def)
  have c: "files (fst (snd (collect (pfx @ ''id_information.json'') (map Inr ds)
             (write_file (pfx @ ''id_information.json'') [] s, []))))
             (pfx @ ''id_information.json'') = Some ([] @ map Json (concat (map fst ds)))" for ds
    by (rule collect_file[OF f])
  show ?thesis
    unfolding Dataset_def fetched_def dataset_file_def fetch_stage_result
      completed_unit[OF assms] c
    by (simp add: records_Json comp_def)
qed

lemma FailedSet_unit:
  assumes "valid_order order pm_ids"
  shows "FailedSet remote order pm_ids pfx s =
         concat (map (\<lambda>i. unit_failed remote (pm_ids ! i)) order)"
proof -
  have "concat (map snd (filter (\<lambda>d. fst d = [])
          (map (\<lambda>i. (kept remote (pm_ids ! i), [pm_ids ! i])) xs)))
        = concat (map (\<lambda>i. unit_failed remote (pm_ids ! i)) xs)" for xs
    by (induction xs) (simp_all add: unit_failed_def)
  then show ?thesis
    unfolding FailedSet_def fetch_stage_result completed_unit[OF assms] collect_failed
    by simp
qed

lemma mset_Dataset:
  assumes "valid_order order pm_ids"
  shows "mset (Dataset remote order pm_ids pfx s) = mset (concat (map (kept remote) pm_ids))"
  using mset_concat_map_order[OF valid_order_set[OF assms], of "kept remote"]
  by (simp add: Dataset_unit[OF assms])

lemma mset_FailedSet:
  assumes "valid_order order pm_ids"
  shows "mset (FailedSet remote order pm_ids pfx s) =
         mset (concat (map (unit_failed remote) pm_ids))"
  using mset_concat_map_order[OF valid_order_set[OF assms], of "unit_failed remote"]
  by (simp add: FailedSet_unit[OF assms])

section \<open>The export loop and the files it leaves alone\<close>

lemma separate_pmcids:
  "pmcids (separate sl articles out) =
   pmcids out @ map (\<lambda>a. or_empty (pmc_id a)) (filter (\<lambda>a. truthy (pmc_id a)) articles)"
  by (induction articles arbitrary: out) (simp_all add: Let_def split: option.splits)

lemma separate_no_pmcids:
  "no_pmcids (separate sl articles out) =
   no_pmcids out @ filter (\<lambda>a. \<not> truthy (pmc_id a)) articles"
  by (induction articles arbitrary: out) (simp_all add: Let_def split: option.splits)

lemma separate_all_md:
  "all_md (separate sl articles out) = all_md out @ map format_article_markdown articles"
  by (induction articles arbitrary: out) (simp_all add: Let_def split: option.splits)

lemma separate_link:
  "link_articles (separate sl articles out) =
   link_articles out @ (if sl then filter (\<lambda>a. has_github_link (abstract a)) articles else [])"
  by (induction articles arbitrary: out) (simp_all add: Let_def split: option.splits)

lemma separate_no_link:
  "no_link_articles (separate sl articles out) =
   no_link_articles out @
   (if sl then filter (\<lambda>a. \<not> has_github_link (abstract a)) articles else [])"
  by (induction articles arbitrary: out) (simp_all add: Let_def split: option.splits)

lemma shorter_neq: "length a < length b \<Longrightarrow> a \<noteq> pfx @ b"
  by auto

lemma try_write_other:
  "p \<noteq> path \<Longrightarrow> files (snd (try_write env path c s)) p = files s p"
  by (simp add: try_write_def write_file_def split: option.splits fault.splits)

lemma write_html_other:
  "p \<noteq> path \<Longrightarrow> files (snd (write_html env path md s)) p = files s p"
  by (simp add: write_html_def write_file_def split: option.splits fault.splits sum.splits)

lemma run_steps_other:
  "(\<And>a s. a \<in> set as \<Longrightarrow> files (snd (a s)) p = files s p) \<Longrightarrow>
   files (snd (run_steps as s)) p = files s p"
proof (induction as arbitrary: s)
  case Nil
  show ?case by simp
next
  case (Cons a as)
  have a: "files (snd (a s)) p = files s p" using Cons.prems by simp
  show ?case
  proof (cases "a s")
    case (Pair r s')
    then have s': "files s' p = files s p" using a by simp
    show ?thesis
    proof (cases r)
      case None
      then show ?thesis using Pair s' Cons.IH[of s'] Cons.prems by simp
    next
      case (Some e)
      then show ?thesis using Pair s' by simp
    qed
  qed
qed

lemma generate_outputs_keeps:
  assumes "fetch_artifact pfx p"
  shows "files (snd (generate_outputs env pfx sl s)) p = files s p"
proof (cases "read_json_lines env (pfx @ ''id_information.json'') s")
  case (Inl e)
  then show ?thesis by (simp add: generate_outputs_def)
next
  case (Inr articles)
  have n1: "p \<noteq> ''pmcids.txt''" "p \<noteq> ''no_pmcids.json''"
    using assms by (auto simp: fetch_artifact_def)
  have n2: "p \<noteq> pfx @ ''id_information.md''" "p \<noteq> pfx @ ''id_information.html''"
    "p \<noteq> pfx @ ''link_id_information.json''" "p \<noteq> pfx @ ''link_id_information.md''"
    "p \<noteq> pfx @ ''link_id_information.html''" "p \<noteq> pfx @ ''no_link_id_information.json''"
    "p \<noteq> pfx @ ''no_link_id_information.md''" "p \<noteq> pfx @ ''no_link_id_information.html''"
    using assms by (auto simp: fetch_artifact_def)
  show ?thesis
    unfolding generate_outputs_def Let_def Inr sum.case
    by (rule run_steps_other)
       (auto simp: n1 n2 try_write_other write_html_other save_json_lines_def write_text_def
          print_step_def print_def split: if_splits)
qed


section \<open>The whole run\<close>

lemma fetched_keeps_failed_file:
  "files (fetched remote order pm_ids pfx s) ''failed_ids.txt'' = files s ''failed_ids.txt''"
proof -
  have "''failed_ids.txt'' \<noteq> pfx @ ''id_information.json''" by (rule shorter_neq) simp
  then show ?thesis
    by (simp add: fetched_def fetch_stage_result collect_other write_file_def)
qed

lemma fetch_stage_parts:
  "fetch_stage remote order pm_ids pfx s =
   (fst (fetch_stage remote order pm_ids pfx s), fetched remote order pm_ids pfx s,
    FailedSet remote order pm_ids pfx s)"
  by (simp add: fetched_def FailedSet_def)

lemma run_after_failed_fetch:
  assumes "fst (fetch_stage remote order pm_ids pfx s) = Some e"
  shows "process_all_ids remote env order pm_ids pfx sl s =
         (Some e, fetched remote order pm_ids pfx s)"
  unfolding process_all_ids_def
  by (subst fetch_stage_parts) (simp add: assms)

lemma run_after_failed_export:
  assumes "fst (fetch_stage remote order pm_ids pfx s) = None"
    and "fst (generate_outputs env pfx sl (fetched remote order pm_ids pfx s)) =
           Some (Error msg)"
  shows "process_all_ids remote env order pm_ids pfx sl s =
         (None, print (ErrorGenerating msg)
           (snd (generate_outputs env pfx sl (fetched remote order pm_ids pfx s))))"
  unfolding process_all_ids_def
  by (subst fetch_stage_parts)
     (use assms in \<open>simp add: case_prod_beta split: option.splits error.splits\<close>)

lemma run_after_export:
  assumes "fst (fetch_stage remote order pm_ids pfx s) = None"
    and "fst (generate_outputs env pfx sl (fetched remote order pm_ids pfx s)) = None"
  shows "process_all_ids remote env order pm_ids pfx sl s =
         (let s2 = snd (generate_outputs env pfx sl (fetched remote order pm_ids pfx s));
              failed_ids = FailedSet remote order pm_ids pfx s
          in if failed_ids \<noteq> []
             then (None, print (SavedFailed (length failed_ids))
                    (write_file ''failed_ids.txt'' (text_content (join nl failed_ids)) s2))
             else (None, s2))"
  unfolding process_all_ids_def
  by (subst fetch_stage_parts)
     (use assms in \<open>simp add: case_prod_beta Let_def split: option.splits\<close>)

lemma run_keeps_dataset_file:
  "files (snd (process_all_ids remote env order pm_ids pfx sl s)) (pfx @ ''id_information.json'') =
   files (fetched remote order pm_ids pfx s) (pfx @ ''id_information.json'')"
proof (cases "fst (fetch_stage remote order pm_ids pfx s)")
  case (Some e)
  then show ?thesis by (simp add: run_after_failed_fetch)
next
  case None
  let ?s1 = "fetched remote order pm_ids pfx s"
  let ?j = "pfx @ ''id_information.json''"
  have keep: "files (snd (generate_outputs env pfx sl ?s1)) ?j = files ?s1 ?j"
    by (rule generate_outputs_keeps) (simp add: fetch_artifact_def)
  have ne: "''failed_ids.txt'' \<noteq> ?j" by (rule shorter_neq) simp
  show ?thesis
  proof (cases "fst (generate_outputs env pfx sl ?s1)")
    case None': None
    show ?thesis
      using keep ne
      by (simp add: run_after_export[OF None None'] Let_def print_def write_file_def)
  next
    case (Some e)
    obtain msg where "e = Error msg" by (cases e)
    with Some have f: "fst (generate_outputs env pfx sl ?s1) = Some (Error msg)" by simp
    show ?thesis using keep by (simp add: run_after_failed_export[OF None f] print_def)
  qed
qed

lemma dataset_after_run:
  "dataset_file pfx (snd (process_all_ids remote env order pm_ids pfx sl s)) =
   Dataset remote order pm_ids pfx s"
  by (simp add: dataset_file_def Dataset_def run_keeps_dataset_file)

lemma failed_file_after_export:
  assumes "fst (fetch_stage remote order pm_ids pfx s) = None"
    and "fst (generate_outputs env pfx sl (fetched remote order pm_ids pfx s)) = None"
  shows "files (snd (process_all_ids remote env order pm_ids pfx sl s)) ''failed_ids.txt'' =
         (if FailedSet remote order pm_ids pfx s = [] then files s ''failed_ids.txt''
          else Some (text_content (join nl (FailedSet remote order pm_ids pfx s))))"
proof -
  let ?s1 = "fetched remote order pm_ids pfx s"
  have "files (snd (generate_outputs env pfx sl ?s1)) ''failed_ids.txt'' =
        files ?s1 ''failed_ids.txt''"
    by (rule generate_outputs_keeps) (simp add: fetch_artifact_def)
  then show ?thesis
    by (simp add: run_after_export[OF assms] Let_def print_def write_file_def
          fetched_keeps_failed_file)
qed

lemma failed_file_after_failed_export:
  assumes "fst (fetch_stage remote order pm_ids pfx s) = None"
    and "fst (generate_outputs env pfx sl (fetched remote order pm_ids pfx s)) =
           Some (Error msg)"
  shows "files (snd (process_all_ids remote env order pm_ids pfx sl s)) ''failed_ids.txt'' =
         files s ''failed_ids.txt''"
proof -
  let ?s1 = "fetched remote order pm_ids pfx s"
  have "files (snd (generate_outputs env pfx sl ?s1)) ''failed_ids.txt'' =
        files ?s1 ''failed_ids.txt''"
    by (rule generate_outputs_keeps) (simp add: fetch_artifact_def)
  then show ?thesis
    by (simp add: run_after_failed_export[OF assms] print_def fetched_keeps_failed_file)
qed

lemma run_returns:
  assumes "valid_order order pm_ids"
  shows "fst (process_all_ids remote env order pm_ids pfx sl s) = None"
proof (cases "fst (generate_outputs env pfx sl (fetched remote order pm_ids pfx s))")
  case None
  show ?thesis
    by (simp add: run_after_export[OF fetch_stage_returns[OF assms] None] Let_def)
next
  case (Some e)
  obtain msg where "e = Error msg" by (cases e)
  with Some have f: "fst (generate_outputs env pfx sl (fetched remote order pm_ids pfx s)) =
    Some (Error msg)" by simp
  show ?thesis by (simp add: run_after_failed_export[OF fetch_stage_returns[OF assms] f])
qed

section \<open>The scenarios evaluated\<close>

lemma fetch_scenario:
  "fetch_article_data scenario_remote ''A1'' 3 = Inr (Some (build_article ''A1'' usable_art))"
  "fetch_article_data scenario_remote ''A2'' 3 = Inr (Some (build_article ''A2'' unusable_art))"
  "fetch_article_data scenario_remote ''A3'' 3 = Inr None"
  by (simp_all add: fetch_article_data_def fetch_article_data_traced_def scenario_remote_def upt3
        SLEEP_MAX_val)

lemma kept_scenario:
  "kept scenario_remote ''A1'' = [build_article ''A1'' usable_art]"
  "kept scenario_remote ''A2'' = []"
  "kept scenario_remote ''A3'' = []"
  by (simp_all add: kept_def fetch_scenario usable_def build_article_def usable_art_def
        unusable_art_def)

lemma valid_order_scenario: "valid_order other_order three_ids"
  by (simp add: valid_order_def make_batches_singletons upt3 three_ids_def submission_order_def
        other_order_def)

lemma valid_order_id3: "valid_order submission_order three_ids"
  by (simp add: valid_order_def make_batches_singletons upt3 three_ids_def submission_order_def
        other_order_def)

lemma failed_scenario:
  "FailedSet scenario_remote submission_order three_ids [] empty_system = [''A2'', ''A3'']"
  unfolding FailedSet_unit[OF valid_order_id3]
  by (simp add: unit_failed_def kept_scenario three_ids_def submission_order_def)

lemma dataset_scenario:
  "Dataset scenario_remote submission_order three_ids [] empty_system =
   [build_article ''A1'' usable_art]"
  unfolding Dataset_unit[OF valid_order_id3]
  by (simp add: kept_scenario three_ids_def submission_order_def)

lemma fetch_stage_scenario:
  "fetched scenario_remote submission_order three_ids [] empty_system =
   \<lparr> files = [''id_information.json'' \<mapsto> [Json (build_article ''A1'' usable_art)]],
     events = [Wrote ''id_information.json'' [],
               Appended ''id_information.json'' [Json (build_article ''A1'' usable_art)]] \<rparr>"
  unfolding fetched_def fetch_stage_result completed_unit[OF valid_order_id3]
  by (simp add: kept_scenario write_file_def append_file_def empty_system_def three_ids_def
        submission_order_def)

lemma export_locked_scenario:
  "fst (generate_outputs html_locked [] True
     (fetched scenario_remote submission_order three_ids [] empty_system)) =
   Some (Error ''Permission denied'')"
  unfolding fetch_stage_scenario
  by (simp add: generate_outputs_def read_json_lines_def html_locked_def Let_def
        try_write_def write_html_def save_json_lines_def write_text_def)

section \<open>Dataset and failed identifiers\<close>

text \<open>
  C1, as stated, fails: in the scenario the unit of A2, fetched but with an empty
  abstract, has no usable result, so the loop over the completed futures puts A2 into
  \<^verbatim>\<open>failed_ids\<close> beside A3.
\<close>

theorem scenario_failed_set_counterexample:
  "FailedSet scenario_remote submission_order three_ids [] empty_system = [''A2'', ''A3''] \<and>
   set (FailedSet scenario_remote submission_order three_ids [] empty_system) \<noteq> {''A3''}"
  by (simp add: failed_scenario)

lemma mset_single_list: "mset xs = {#a#} \<Longrightarrow> xs = [a]"
  by (cases xs) auto

text \<open>
  C1, amended: for three identifiers of which the first is fetched and usable, the second
  is fetched with an empty abstract and the third exhausts its retries, and for every
  order of completion, the dataset file holds exactly the first record and the failed
  identifiers are exactly the second and the third: a unit without a usable record is
  left out of the dataset and is counted as failed.
\<close>

theorem end_to_end_three:
  assumes "valid_order order [x1, x2, x3]"
    and "fetch_article_data remote x1 3 = Inr (Some a1)" and "usable a1"
    and "fetch_article_data remote x2 3 = Inr (Some a2)" and "abstract a2 = []"
    and "fetch_article_data remote x3 3 = Inr None"
  shows "dataset_file pfx (snd (process_all_ids remote env order [x1, x2, x3] pfx sl s)) = [a1] \<and>
         set (FailedSet remote order [x1, x2, x3] pfx s) = {x2, x3} \<and>
         length (FailedSet remote order [x1, x2, x3] pfx s) = 2"
proof -
  have k: "kept remote x1 = [a1]" "kept remote x2 = []" "kept remote x3 = []"
    using assms(2-6) by (simp_all add: kept_def usable_def)
  have "mset (Dataset remote order [x1, x2, x3] pfx s) = {#a1#}"
    using mset_Dataset[OF assms(1), of remote pfx s] k by simp
  then have d: "Dataset remote order [x1, x2, x3] pfx s = [a1]" by (rule mset_single_list)
  have f: "mset (FailedSet remote order [x1, x2, x3] pfx s) = {#x2, x3#}"
    using mset_FailedSet[OF assms(1), of remote pfx s] k by (simp add: unit_failed_def)
  have "set_mset (mset (FailedSet remote order [x1, x2, x3] pfx s)) = {x2, x3}"
    unfolding f by simp
  moreover have "size (mset (FailedSet remote order [x1, x2, x3] pfx s)) = 2"
    unfolding f by simp
  ultimately show ?thesis using d by (simp add: dataset_after_run)
qed

theorem end_to_end_three_witness:
  "dataset_file [] (snd (process_all_ids scenario_remote no_faults other_order three_ids
     [] True empty_system)) = [build_article ''A1'' usable_art] \<and>
   set (FailedSet scenario_remote other_order three_ids [] empty_system) =
     {''A2'', ''A3''}"
proof -
  have u: "usable (build_article ''A1'' usable_art)"
    by (simp add: usable_def build_article_def usable_art_def)
  have e: "abstract (build_article ''A2'' unusable_art) = []"
    by (simp add: build_article_def unusable_art_def usable_art_def)
  show ?thesis
    unfolding three_ids_def
    using end_to_end_three[OF valid_order_scenario[unfolded three_ids_def] fetch_scenario(1) u
            fetch_scenario(2) e fetch_scenario(3), of "[]" no_faults True empty_system]
    by simp
qed

lemma set_kept:
  "r \<in> set (kept remote pmid) \<longleftrightarrow>
   fetch_article_data remote pmid 3 = Inr (Some r) \<and> abstract r \<noteq> [] \<and> doi r \<noteq> None \<and> doi r \<noteq> Some []"
  by (auto simp: kept_def usable_def split: option.splits)

text \<open>
  C2: after a run, a record is in the dataset file if and only if the fetch of one of the
  identifiers returned it and its abstract and its DOI are both non-empty; the fetcher
  itself returns whatever the service answered, usable or not.
\<close>

theorem dataset_membership:
  assumes "valid_order order pm_ids"
  shows "(r \<in> set (dataset_file pfx (snd (process_all_ids remote env order pm_ids pfx sl s))) \<longleftrightarrow>
          (\<exists>pmid\<in>set pm_ids. fetch_article_data remote pmid 3 = Inr (Some r) \<and>
             abstract r \<noteq> [] \<and> doi r \<noteq> None \<and> doi r \<noteq> Some [])) \<and>
         (remote p 0 = Inr art \<longrightarrow> fetch_article_data remote p 3 = Inr (Some (build_article p art)))"
proof -
  have "set (Dataset remote order pm_ids pfx s) = set (concat (map (kept remote) pm_ids))"
    using mset_Dataset[OF assms, of remote pfx s] by (rule mset_eq_setD)
  then have a: "r \<in> set (dataset_file pfx (snd (process_all_ids remote env order pm_ids pfx sl s))) \<longleftrightarrow>
          (\<exists>pmid\<in>set pm_ids. fetch_article_data remote pmid 3 = Inr (Some r) \<and>
             abstract r \<noteq> [] \<and> doi r \<noteq> None \<and> doi r \<noteq> Some [])"
    by (simp add: dataset_after_run set_kept)
  have b: "remote p 0 = Inr art \<longrightarrow> fetch_article_data remote p 3 = Inr (Some (build_article p art))"
    by (simp add: fetch_article_data_def fetch_article_data_traced_def upt3)
  show ?thesis using a b by blast
qed

theorem dataset_membership_witness:
  "build_article ''A1'' usable_art \<in> set (dataset_file [] (snd (process_all_ids scenario_remote
     no_faults other_order three_ids [] True empty_system))) \<and>
   build_article ''A2'' unusable_art \<notin> set (dataset_file [] (snd (process_all_ids scenario_remote
     no_faults other_order three_ids [] True empty_system))) \<and>
   fetch_article_data scenario_remote ''A2'' 3 = Inr (Some (build_article ''A2'' unusable_art))"
proof -
  have u: "abstract (build_article ''A1'' usable_art) \<noteq> []"
     "doi (build_article ''A1'' usable_art) = Some ''10.1/x''"
     "abstract (build_article ''A2'' unusable_art) = []"
    by (simp_all add: build_article_def usable_art_def unusable_art_def)
  have r: "scenario_remote ''A2'' 0 = Inr unusable_art" by (simp add: scenario_remote_def)
  show ?thesis
    using dataset_membership[OF valid_order_scenario, of "build_article ''A1'' usable_art" "[]"
            scenario_remote no_faults True empty_system "''A2''" unusable_art]
          dataset_membership[OF valid_order_scenario, of "build_article ''A2'' unusable_art" "[]"
            scenario_remote no_faults True empty_system "''A2''" unusable_art]
          r u
    by (simp add: fetch_scenario three_ids_def)
qed

lemma kept_cases: "kept remote p = [] \<or> (\<exists>a. kept remote p = [a])"
  by (simp add: kept_def split: sum.splits option.splits)

lemma kept_or_failed:
  "length (concat (map (kept remote) xs)) + length (concat (map (unit_failed remote) xs)) =
   length xs"
proof (induction xs)
  case Nil
  show ?case by simp
next
  case (Cons p xs)
  then show ?case using kept_cases[of remote p] by (auto simp: unit_failed_def)
qed

text \<open>
  C9: with units of one identifier, the records of the dataset and the identifiers of the
  failed units together are as many as the input units (so at least as many): every
  identifier is either stored or recorded as failed.
\<close>

theorem every_unit_accounted:
  assumes "valid_order order pm_ids"
  shows "length (make_batches pm_ids) \<le>
           length (dataset_file pfx (snd (process_all_ids remote env order pm_ids pfx sl s))) +
           length (FailedSet remote order pm_ids pfx s) \<and>
         length (dataset_file pfx (snd (process_all_ids remote env order pm_ids pfx sl s))) +
           length (FailedSet remote order pm_ids pfx s) = length pm_ids"
proof -
  have "size (mset (Dataset remote order pm_ids pfx s)) =
        size (mset (concat (map (kept remote) pm_ids)))"
    using mset_Dataset[OF assms, of remote pfx s] by simp
  moreover have "size (mset (FailedSet remote order pm_ids pfx s)) =
        size (mset (concat (map (unit_failed remote) pm_ids)))"
    using mset_FailedSet[OF assms, of remote pfx s] by simp
  ultimately have "length (Dataset remote order pm_ids pfx s) +
      length (FailedSet remote order pm_ids pfx s) = length pm_ids"
    using kept_or_failed[of remote pm_ids] by simp
  then show ?thesis by (simp add: dataset_after_run make_batches_singletons)
qed

theorem every_unit_accounted_witness:
  "length three_ids = 3 \<and>
   length (dataset_file [] (snd (process_all_ids scenario_remote no_faults other_order
     three_ids [] True empty_system))) +
   length (FailedSet scenario_remote other_order three_ids [] empty_system) = 3"
  using every_unit_accounted[OF valid_order_scenario, of "[]" scenario_remote no_faults True
          empty_system]
  by (simp add: three_ids_def)

section \<open>Export failure\<close>

text \<open>
  C6: when the fetch stage completes and the export stage raises, the run itself raises
  nothing and ends by printing the error, the dataset file is what the fetch stage left,
  and the file of failed identifiers is what it was before the run.
\<close>

theorem export_failure_keeps_fetch_results:
  assumes "fst (fetch_stage remote order pm_ids pfx s) = None"
    and "fst (generate_outputs env pfx sl (fetched remote order pm_ids pfx s)) =
           Some (Error msg)"
  shows "fst (process_all_ids remote env order pm_ids pfx sl s) = None \<and>
         last (events (snd (process_all_ids remote env order pm_ids pfx sl s))) =
           Printed (ErrorGenerating msg) \<and>
         files (snd (process_all_ids remote env order pm_ids pfx sl s)) (pfx @ ''id_information.json'') =
           files (fetched remote order pm_ids pfx s) (pfx @ ''id_information.json'') \<and>
         dataset_file pfx (snd (process_all_ids remote env order pm_ids pfx sl s)) =
           Dataset remote order pm_ids pfx s \<and>
         files (snd (process_all_ids remote env order pm_ids pfx sl s)) ''failed_ids.txt'' =
           files s ''failed_ids.txt''"
  using run_keeps_dataset_file[of remote env order pm_ids pfx sl s]
        dataset_after_run[of pfx remote env order pm_ids sl s]
        failed_file_after_failed_export[OF assms]
  by (simp add: run_after_failed_export[OF assms] print_def)

theorem export_failure_keeps_fetch_results_witness:
  "last (events (snd (process_all_ids scenario_remote html_locked submission_order three_ids
     [] True empty_system))) = Printed (ErrorGenerating ''Permission denied'') \<and>
   files (snd (process_all_ids scenario_remote html_locked submission_order three_ids
     [] True empty_system)) ''id_information.json'' =
     Some [Json (build_article ''A1'' usable_art)] \<and>
   files (snd (process_all_ids scenario_remote html_locked submission_order three_ids
     [] True empty_system)) ''failed_ids.txt'' = None"
  using export_failure_keeps_fetch_results[OF fetch_stage_returns[OF valid_order_id3]
          export_locked_scenario]
  unfolding fetch_stage_scenario
  by (simp add: empty_system_def)

lemma valid_order_one: "valid_order first_only one_id"
  by (simp add: valid_order_def make_batches_singletons one_id_def first_only_def)

lemma failed_one:
  "FailedSet (always_fails ''timeout'') first_only one_id [] empty_system = [''A3'']"
  unfolding FailedSet_unit[OF valid_order_one]
  by (simp add: unit_failed_def kept_def fetch_article_data_def fetch_article_data_traced_def
        always_fails_def upt3 one_id_def first_only_def SLEEP_MAX_val)

lemma fetch_stage_one:
  "fetched (always_fails ''timeout'') first_only one_id [] empty_system =
   \<lparr> files = [''id_information.json'' \<mapsto> []], events = [Wrote ''id_information.json'' []] \<rparr>"
  unfolding fetched_def fetch_stage_result completed_unit[OF valid_order_one]
  by (simp add: kept_def fetch_article_data_def fetch_article_data_traced_def
        always_fails_def upt3 write_file_def empty_system_def one_id_def first_only_def
        SLEEP_MAX_val)

lemma export_locked_one:
  "fst (generate_outputs html_locked [] True
     (fetched (always_fails ''timeout'') first_only one_id [] empty_system)) =
   Some (Error ''Permission denied'')"
  unfolding fetch_stage_one
  by (simp add: generate_outputs_def read_json_lines_def html_locked_def Let_def
        try_write_def write_html_def save_json_lines_def write_text_def no_outputs_def)

lemma export_locked_one_state:
  "generate_outputs html_locked [] True
     (fetched (always_fails ''timeout'') first_only one_id [] empty_system) =
   (Some (Error ''Permission denied''),
    \<lparr> files = [''id_information.json'' \<mapsto> [], ''pmcids.txt'' \<mapsto> [],
                ''no_pmcids.json'' \<mapsto> [], ''id_information.md'' \<mapsto> []],
      events = [Wrote ''id_information.json'' [], Wrote ''pmcids.txt'' [],
                Wrote ''no_pmcids.json'' [], Wrote ''id_information.md'' []] \<rparr>)"
  unfolding fetch_stage_one
  by (simp add: generate_outputs_def read_json_lines_def html_locked_def Let_def
        try_write_def write_html_def save_json_lines_def write_text_def no_outputs_def
        write_file_def text_content_def)

text \<open>
  C7: the run whose only identifier fails and whose export stage raises has a non-empty
  list of failed identifiers and never writes \<^verbatim>\<open>failed_ids.txt\<close>, as its events show: the
  \<^verbatim>\<open>return\<close> of the exception handler comes before the write.
\<close>

theorem failed_ids_lost_when_export_fails:
  "FailedSet (always_fails ''timeout'') first_only one_id [] empty_system = [''A3''] \<and>
   files (snd (process_all_ids (always_fails ''timeout'') html_locked first_only one_id [] True
     empty_system)) ''failed_ids.txt'' = None \<and>
   events (snd (process_all_ids (always_fails ''timeout'') html_locked first_only one_id [] True
     empty_system)) =
     [Wrote ''id_information.json'' [], Wrote ''pmcids.txt'' [], Wrote ''no_pmcids.json'' [],
      Wrote ''id_information.md'' [], Printed (ErrorGenerating ''Permission denied'')]"
proof -
  have a: "files (snd (process_all_ids (always_fails ''timeout'') html_locked first_only one_id [] True
     empty_system)) ''failed_ids.txt'' = files empty_system ''failed_ids.txt''"
    using failed_file_after_failed_export[OF fetch_stage_returns[OF valid_order_one]
            export_locked_one] .
  have b: "events (snd (process_all_ids (always_fails ''timeout'') html_locked first_only one_id
     [] True empty_system)) =
     [Wrote ''id_information.json'' [], Wrote ''pmcids.txt'' [], Wrote ''no_pmcids.json'' [],
      Wrote ''id_information.md'' [], Printed (ErrorGenerating ''Permission denied'')]"
    unfolding run_after_failed_export[OF fetch_stage_returns[OF valid_order_one] export_locked_one] export_locked_one_state
    by (simp add: print_def)
  have c: "files empty_system ''failed_ids.txt'' = None" by (simp add: empty_system_def)
  show ?thesis using a b c failed_one by simp
qed

section \<open>Classification\<close>

text \<open>
  C8, as stated, fails: with \<^verbatim>\<open>select_link=False\<close> the loop classifies nothing,
  and a record of the dataset is in neither of the two classification lists.
\<close>

theorem classification_off_counterexample:
  "build_article ''A1'' usable_art \<notin>
     set (link_articles (separate False [build_article ''A1'' usable_art] no_outputs)) \<union>
     set (no_link_articles (separate False [build_article ''A1'' usable_art] no_outputs))"
  unfolding separate_link separate_no_link by (simp add: no_outputs_def)

lemma filter_partition_disjoint: "set (filter P xs) \<inter> set (filter (\<lambda>x. \<not> P x) xs) = {}"
  by auto

lemma filter_partition_mset: "mset (filter P xs) + mset (filter (\<lambda>x. \<not> P x) xs) = mset xs"
  by (induction xs) simp_all

text \<open>
  C8, amended: with \<^verbatim>\<open>select_link=True\<close>, the default, the matched and the
  unmatched list are disjoint and together hold every record of the dataset exactly as
  often as the dataset does; whatever the flag, the records whose secondary-repository
  identifier is listed and the records of the list without one are disjoint and together
  make up the dataset.
\<close>

theorem export_partitions:
  "set (link_articles (separate True articles no_outputs)) \<inter>
     set (no_link_articles (separate True articles no_outputs)) = {} \<and>
   mset (link_articles (separate True articles no_outputs)) +
     mset (no_link_articles (separate True articles no_outputs)) = mset articles \<and>
   set (link_articles (separate True articles no_outputs)) \<union>
     set (no_link_articles (separate True articles no_outputs)) = set articles \<and>
   link_articles (separate True articles no_outputs) =
     filter (\<lambda>a. has_github_link (abstract a)) articles \<and>
   no_link_articles (separate True articles no_outputs) =
     filter (\<lambda>a. \<not> has_github_link (abstract a)) articles \<and>
   pmcids (separate sl articles no_outputs) =
     map (\<lambda>a. or_empty (pmc_id a)) (filter (\<lambda>a. truthy (pmc_id a)) articles) \<and>
   set (filter (\<lambda>a. truthy (pmc_id a)) articles) \<inter>
     set (no_pmcids (separate sl articles no_outputs)) = {} \<and>
   mset (filter (\<lambda>a. truthy (pmc_id a)) articles) +
     mset (no_pmcids (separate sl articles no_outputs)) = mset articles"
proof -
  have l: "link_articles (separate True articles no_outputs) =
           filter (\<lambda>a. has_github_link (abstract a)) articles"
    by (simp add: separate_link no_outputs_def)
  have n: "no_link_articles (separate True articles no_outputs) =
           filter (\<lambda>a. \<not> has_github_link (abstract a)) articles"
    by (simp add: separate_no_link no_outputs_def)
  have p: "pmcids (separate sl articles no_outputs) =
           map (\<lambda>a. or_empty (pmc_id a)) (filter (\<lambda>a. truthy (pmc_id a)) articles)"
    by (simp add: separate_pmcids no_outputs_def)
  have q: "no_pmcids (separate sl articles no_outputs) =
           filter (\<lambda>a. \<not> truthy (pmc_id a)) articles"
    by (simp add: separate_no_pmcids no_outputs_def)
  have u: "set (filter (\<lambda>a. has_github_link (abstract a)) articles) \<union>
           set (filter (\<lambda>a. \<not> has_github_link (abstract a)) articles) = set articles"
    by auto
  show ?thesis
    unfolding l n p q
    using u filter_partition_disjoint[of "\<lambda>a. has_github_link (abstract a)" articles]
      filter_partition_mset[of "\<lambda>a. has_github_link (abstract a)" articles]
      filter_partition_disjoint[of "\<lambda>a. truthy (pmc_id a)" articles]
      filter_partition_mset[of "\<lambda>a. truthy (pmc_id a)" articles]
    by simp
qed

lemma truthy_cases: "(\<not> truthy d) = (d = None \<or> d = Some [])"
  by (cases d) simp_all

lemma pmcids_concat:
  "map (\<lambda>a. or_empty (pmc_id a)) (filter (\<lambda>a. truthy (pmc_id a)) articles) =
   concat (map (\<lambda>a. case pmc_id a of None \<Rightarrow> [] | Some p \<Rightarrow> if p = [] then [] else [p])
     articles)"
  by (induction articles) (simp_all split: option.splits)

text \<open>
  C10: the list \<^verbatim>\<open>no_pmcids\<close> holds exactly the records whose \<^verbatim>\<open>pmc_id\<close> is
  \<^verbatim>\<open>None\<close> or the empty string, and \<^verbatim>\<open>pmcids\<close> holds, for each other
  record, its identifier string only.
\<close>

theorem falsy_pmc_id_routing:
  "no_pmcids (separate sl articles no_outputs) =
     filter (\<lambda>a. pmc_id a = None \<or> pmc_id a = Some []) articles \<and>
   pmcids (separate sl articles no_outputs) =
     concat (map (\<lambda>a. case pmc_id a of None \<Rightarrow> [] | Some p \<Rightarrow> if p = [] then [] else [p])
       articles)"
  by (simp add: separate_no_pmcids separate_pmcids no_outputs_def truthy_cases pmcids_concat)

section \<open>What a successful export leaves in the two identifier files\<close>

lemma run_steps_append:
  "run_steps (as @ bs) s = (None, s') \<Longrightarrow>
   \<exists>s1. run_steps as s = (None, s1) \<and> run_steps bs s1 = (None, s')"
proof (induction as arbitrary: s)
  case Nil
  then show ?case by simp
next
  case (Cons a as)
  then show ?case by (cases "a s") (auto split: option.splits)
qed

lemma try_write_done:
  "try_write env path c s = (None, s1) \<Longrightarrow> files s1 path = Some c"
  by (auto simp: try_write_def write_file_def split: option.splits fault.splits)

lemma run_steps_written:
  assumes "run_steps (try_write env path c # bs) s = (None, s')"
    and "\<And>b t. b \<in> set bs \<Longrightarrow> files (snd (b t)) path = files t path"
  shows "files s' path = Some c"
proof -
  obtain s1 where s1: "try_write env path c s = (None, s1)" "run_steps bs s1 = (None, s')"
    using assms(1) by (cases "try_write env path c s") (auto split: option.splits)
  have "files (snd (run_steps bs s1)) path = files s1 path"
    by (rule run_steps_other) (rule assms(2))
  then show ?thesis using s1 try_write_done[OF s1(1)] by simp
qed

lemma export_writes_pmc_lists:
  assumes "generate_outputs env pfx sl s = (None, s')"
    and "read_json_lines env (pfx @ ''id_information.json'') s = Inr articles"
  shows "files s' ''pmcids.txt'' =
           Some (text_content (join nl (pmcids (separate sl articles no_outputs))))"
    and "files s' ''no_pmcids.json'' =
           Some (map Json (no_pmcids (separate sl articles no_outputs)))"
proof -
  define out where "out = separate sl articles no_outputs"
  define rest where "rest =
     [ write_text env (pfx @ ''id_information.md'') (concat (all_md out)),
       write_html env (pfx @ ''id_information.html'') (concat (all_md out)) ]
     @ (if sl
        then [ save_json_lines env (pfx @ ''link_id_information.json'') (link_articles out),
               write_text env (pfx @ ''link_id_information.md'')
                 (concat (map format_article_markdown (link_articles out))),
               write_html env (pfx @ ''link_id_information.html'')
                 (concat (map format_article_markdown (link_articles out))),
               save_json_lines env (pfx @ ''no_link_id_information.json'')
                 (no_link_articles out),
               write_text env (pfx @ ''no_link_id_information.md'')
                 (concat (map format_article_markdown (no_link_articles out))),
               write_html env (pfx @ ''no_link_id_information.html'')
                 (concat (map format_article_markdown (no_link_articles out))) ]
        else [])
     @ [ print_step (GeneratedOutputs (length articles)) ]"
  have run: "run_steps
      (try_write env ''pmcids.txt'' (text_content (join nl (pmcids out))) #
       try_write env ''no_pmcids.json'' (map Json (no_pmcids out)) # rest) s = (None, s')"
    unfolding rest_def
    using assms(1)[unfolded generate_outputs_def Let_def assms(2) sum.case, folded out_def]
    by (simp only: append_Cons append_Nil write_text_def save_json_lines_def)
  have n: "p \<noteq> pfx @ ''id_information.md''" "p \<noteq> pfx @ ''id_information.html''"
    "p \<noteq> pfx @ ''link_id_information.json''" "p \<noteq> pfx @ ''link_id_information.md''"
    "p \<noteq> pfx @ ''link_id_information.html''" "p \<noteq> pfx @ ''no_link_id_information.json''"
    "p \<noteq> pfx @ ''no_link_id_information.md''" "p \<noteq> pfx @ ''no_link_id_information.html''"
    if "p = ''pmcids.txt'' \<or> p = ''no_pmcids.json''" for p
    using that by (auto simp: shorter_neq)
  have keep: "files (snd (b t)) p = files t p"
    if "b \<in> set rest" "p = ''pmcids.txt'' \<or> p = ''no_pmcids.json''" for b t p
    using that(1) n[OF that(2)]
    by (auto simp: rest_def try_write_other write_html_other save_json_lines_def write_text_def
          print_step_def print_def split: if_splits)
  have k1: "files (snd (b t)) ''pmcids.txt'' = files t ''pmcids.txt''"
    if "b \<in> set (try_write env ''no_pmcids.json'' (map Json (no_pmcids out)) # rest)" for b t
    using that keep[of b "''pmcids.txt''" t] by (auto simp: try_write_other)
  have "files s' ''pmcids.txt'' = Some (text_content (join nl (pmcids out)))"
    by (rule run_steps_written[OF run]) (rule k1)
  then show "files s' ''pmcids.txt'' =
           Some (text_content (join nl (pmcids (separate sl articles no_outputs))))"
    by (simp add: out_def)
  obtain s1 where s1: "run_steps
      (try_write env ''no_pmcids.json'' (map Json (no_pmcids out)) # rest) s1 = (None, s')"
    using run by (cases "try_write env ''pmcids.txt'' (text_content (join nl (pmcids out))) s")
      (auto split: option.splits)
  have k2: "files (snd (b t)) ''no_pmcids.json'' = files t ''no_pmcids.json''"
    if "b \<in> set rest" for b t
    using that keep[of b "''no_pmcids.json''" t] by simp
  have "files s' ''no_pmcids.json'' = Some (map Json (no_pmcids out))"
    by (rule run_steps_written[OF s1]) (rule k2)
  then show "files s' ''no_pmcids.json'' =
           Some (map Json (no_pmcids (separate sl articles no_outputs)))"
    by (simp add: out_def)
qed

end
